theory Spec2Isabelle
  imports Complex_Main "HOL-Library.Sublist" "HOL-Library.Product_Lexorder"
begin

section \<open>Python strings\<close>

text \<open>
  A Python \<open>str\<close> is a sequence of Unicode code points, so it is modelled as a list of
  naturals (every code point of a \<open>str\<close> is below \<open>0x110000\<close>). An ASCII literal of the
  source is written \<open>py ''...''\<close>; characters outside printable ASCII are given by number.
\<close>

type_synonym codepoint = nat
type_synonym pystr = "codepoint list"
type_synonym bytes = "nat list"

definition py :: "string \<Rightarrow> pystr" where
  "py s = map of_char s"

abbreviation LF :: codepoint where "LF \<equiv> 10"
abbreviation CR :: codepoint where "CR \<equiv> 13"
abbreviation FF :: codepoint where "FF \<equiv> 12"

text \<open>
  \<open>s.replace(old, new)\<close>: the occurrences of \<open>old\<close> are found from the left and do not
  overlap. With an empty \<open>old\<close>, Python puts \<open>new\<close> before every character and at the end.
\<close>

function str_replace :: "pystr \<Rightarrow> pystr \<Rightarrow> pystr \<Rightarrow> pystr" where
  "str_replace old new [] = (if old = [] then new else [])"
| "str_replace old new (c # cs) =
     (if old = [] then new @ c # str_replace old new cs
      else if prefix old (c # cs) then new @ str_replace old new (drop (length old - 1) cs)
      else c # str_replace old new cs)"
  by pat_completeness auto
termination
  by (relation "measure (\<lambda>(old, new, s). length s)") auto

text \<open>\<open>sep.join(parts)\<close>.\<close>

fun join :: "pystr \<Rightarrow> pystr list \<Rightarrow> pystr" where
  "join sep [] = []"
| "join sep [p] = p"
| "join sep (p # q # ps) = p @ sep @ join sep (q # ps)"

text \<open>
  \<open>str.isspace\<close> for one character: the code points of bidirectional class WS, B or S and
  of category Zs, which is the set \<open>str.strip()\<close> removes.
\<close>

definition is_space :: "codepoint \<Rightarrow> bool" where
  "is_space c \<longleftrightarrow>
     (9 \<le> c \<and> c \<le> 13) \<or> (28 \<le> c \<and> c \<le> 32) \<or> c = 0x85 \<or> c = 0xA0 \<or> c = 0x1680 \<or>
     (0x2000 \<le> c \<and> c \<le> 0x200A) \<or> c = 0x2028 \<or> c = 0x2029 \<or> c = 0x202F \<or>
     c = 0x205F \<or> c = 0x3000"

text \<open>\<open>s.strip(chars)\<close> removes leading and trailing characters that satisfy the test.\<close>

definition strip_where :: "(codepoint \<Rightarrow> bool) \<Rightarrow> pystr \<Rightarrow> pystr" where
  "strip_where P s = rev (dropWhile P (rev (dropWhile P s)))"

definition strip :: "pystr \<Rightarrow> pystr" where
  "strip s = strip_where is_space s"

definition strip_chars :: "pystr \<Rightarrow> pystr \<Rightarrow> pystr" where
  "strip_chars chars s = strip_where (\<lambda>c. c \<in> set chars) s"

section \<open>The text normalizer (ingestion/extract.py)\<close>

text \<open>
  \<open>re.sub(r"[...]", repl, s)\<close> for a character class: every character of the class is
  replaced, the others are kept.
\<close>

definition re_sub_set :: "codepoint list \<Rightarrow> pystr \<Rightarrow> pystr \<Rightarrow> pystr" where
  "re_sub_set cls repl s = concat (map (\<lambda>c. if c \<in> set cls then repl else [c]) s)"

text \<open>
  The class \<open>\w\<close> of a \<open>str\<close> pattern: on ASCII the letters, the digits and the underscore;
  beyond ASCII the alphanumeric code points of the Unicode database, a table of the
  interpreter that is taken as the parameter \<open>uni\<close>.
\<close>

definition ascii_word :: "codepoint \<Rightarrow> bool" where
  "ascii_word c \<longleftrightarrow>
     (48 \<le> c \<and> c \<le> 57) \<or> (65 \<le> c \<and> c \<le> 90) \<or> c = 95 \<or> (97 \<le> c \<and> c \<le> 122)"

definition re_word :: "(codepoint \<Rightarrow> bool) \<Rightarrow> codepoint \<Rightarrow> bool" where
  "re_word uni c = (if c < 128 then ascii_word c else uni c)"

text \<open>
  \<open>re.sub(r"(\w)-\n(\w)", r"\1\2", s)\<close>. The scan goes from the left; a match takes four
  characters, writes the two word characters and resumes behind the match, so the second
  word character of a match is never the first one of the next match.
\<close>

fun dehyphenate :: "(codepoint \<Rightarrow> bool) \<Rightarrow> pystr \<Rightarrow> pystr" where
  "dehyphenate uni (a # h # n # b # rest) =
     (if re_word uni a \<and> h = 45 \<and> n = LF \<and> re_word uni b
      then a # b # dehyphenate uni rest
      else a # dehyphenate uni (h # n # b # rest))"
| "dehyphenate uni (a # cs) = a # dehyphenate uni cs"
| "dehyphenate uni [] = []"

text \<open>
  \<open>re.sub(r"\n{3,}", "\n\n", s)\<close>. The quantifier is greedy: a match starts where three
  newlines begin and takes the whole run.
\<close>

function collapse_breaks :: "pystr \<Rightarrow> pystr" where
  "collapse_breaks [] = []"
| "collapse_breaks (c # cs) =
     (if c = LF \<and> take 2 cs = [LF, LF]
      then LF # LF # collapse_breaks (dropWhile (\<lambda>x. x = LF) cs)
      else c # collapse_breaks cs)"
  by pat_completeness auto
termination
  by (relation "measure length") (auto simp: length_dropWhile_le less_Suc_eq_le)

text \<open>
  \<open>_normalize\<close>. The two character classes are the curly double quotes U+201C, U+201D and
  the curly single quotes U+2018, U+2019.
\<close>

definition normalize_text :: "(codepoint \<Rightarrow> bool) \<Rightarrow> pystr \<Rightarrow> pystr" where
  "normalize_text uni s0 =
     (let s1 = str_replace [CR] [LF] (str_replace [CR, LF] [LF] s0);
          s2 = re_sub_set [0x201C, 0x201D] [34] s1;
          s3 = re_sub_set [0x2018, 0x2019] [39] s2;
          s4 = dehyphenate uni s3;
          s5 = collapse_breaks s4
      in s5)"

text \<open>A run of three newlines somewhere in a string.\<close>

fun triple_newline :: "pystr \<Rightarrow> bool" where
  "triple_newline (a # b # c # rest) =
     ((a = LF \<and> b = LF \<and> c = LF) \<or> triple_newline (b # c # rest))"
| "triple_newline _ = False"

section \<open>Hashing (ingestion/extract.py)\<close>

datatype error =
    UnicodeEncodeError
  | DatabaseError
  | FileError
  | OpenAIError

text \<open>
  \<open>text.encode('utf-8')\<close>. A \<open>str\<close> may hold a lone surrogate (U+D800 to U+DFFF), which
  the codec refuses with \<open>UnicodeEncodeError\<close>.
\<close>

definition utf8_char :: "codepoint \<Rightarrow> error + bytes" where
  "utf8_char c =
     (if c < 0x80 then Inr [c]
      else if c < 0x800 then Inr [0xC0 + c div 0x40, 0x80 + c mod 0x40]
      else if 0xD800 \<le> c \<and> c \<le> 0xDFFF then Inl UnicodeEncodeError
      else if c < 0x10000
        then Inr [0xE0 + c div 0x1000, 0x80 + (c div 0x40) mod 0x40, 0x80 + c mod 0x40]
      else Inr [0xF0 + c div 0x40000, 0x80 + (c div 0x1000) mod 0x40,
                0x80 + (c div 0x40) mod 0x40, 0x80 + c mod 0x40])"

fun encode_utf8 :: "pystr \<Rightarrow> error + bytes" where
  "encode_utf8 [] = Inr []"
| "encode_utf8 (c # cs) =
     (case utf8_char c of
        Inl e \<Rightarrow> Inl e
      | Inr b \<Rightarrow> (case encode_utf8 cs of Inl e \<Rightarrow> Inl e | Inr bs \<Rightarrow> Inr (b @ bs)))"

text \<open>
  \<open>sha256_bytes\<close> is \<open>hashlib.sha256(bytes).hexdigest()\<close>. The hash function belongs to
  the Python library; it is the parameter \<open>H\<close> of everything that hashes.
\<close>

definition sha256_bytes :: "(bytes \<Rightarrow> pystr) \<Rightarrow> bytes \<Rightarrow> pystr" where
  "sha256_bytes H b = H b"

definition sha256_text :: "(bytes \<Rightarrow> pystr) \<Rightarrow> pystr \<Rightarrow> error + pystr" where
  "sha256_text H text =
     (case encode_utf8 text of Inl e \<Rightarrow> Inl e | Inr b \<Rightarrow> Inr (sha256_bytes H b))"

section \<open>The store (routes/database.py)\<close>

text \<open>
  The module constants \<open>TOK_VER\<close> and \<open>SEG_VER\<close>. \<open>persist_chunk\<close> reads them when it
  runs; in the model they are its arguments \<open>tok_ver\<close> and \<open>seg_ver\<close>, so that a run under
  other versions can be stated.
\<close>

definition TOK_VER :: int where "TOK_VER = 1"
definition SEG_VER :: int where "SEG_VER = 1"

text \<open>The rows of the tables \<open>documents\<close> and \<open>chunks\<close>, without their primary keys.\<close>

record document =
  source_path :: pystr
  title :: "pystr option"
  file_hash :: pystr
  modified_at :: int

record chunk =
  doc_id :: pystr
  page_start :: "int option"
  page_end :: "int option"
  section_label :: "pystr option"
  chunk_hash :: pystr
  content_hash :: pystr
  chunk_text :: pystr

text \<open>
  A table is a map from its primary key (\<open>doc_id\<close>, \<open>chunk_id\<close>) to the row. A connection
  sees its own uncommitted writes (\<open>session\<close>); \<open>committed\<close> is what the database file
  holds and every other connection sees.
\<close>

record store =
  documents :: "pystr \<rightharpoonup> document"
  chunks :: "pystr \<rightharpoonup> chunk"

record connection =
  committed :: store
  session :: store

text \<open>
  The calls on the connection that can raise: the two \<open>execute\<close> calls and \<open>commit\<close>.
  Which of them fail in one call of a function is the parameter \<open>fails\<close>.
\<close>

datatype dbop = Select | Replace | Commit

text \<open>
  \<open>REPLACE INTO documents(doc_id, source_path, file_hash, modified_at)\<close>: the row of the
  same primary key is deleted and the new row inserted; the column \<open>title\<close> is not in the
  statement and takes its default, NULL.
\<close>

definition replace_into_documents :: "store \<Rightarrow> pystr \<Rightarrow> pystr \<Rightarrow> pystr \<Rightarrow> int \<Rightarrow> store" where
  "replace_into_documents st did path fh mt =
     st\<lparr>documents := (documents st)(did \<mapsto>
        \<lparr>source_path = path, title = None, file_hash = fh, modified_at = mt\<rparr>)\<rparr>"

text \<open>
  \<open>REPLACE INTO chunks(...)\<close>: every row in conflict with the new one is deleted, on the
  primary key \<open>chunk_id\<close> or on the unique index \<open>(doc_id, chunk_hash)\<close>; then the new
  row is inserted. Foreign keys are not enforced (SQLite's default).
\<close>

definition replace_into_chunks :: "store \<Rightarrow> pystr \<Rightarrow> chunk \<Rightarrow> store" where
  "replace_into_chunks st cid row =
     st\<lparr>chunks := (\<lambda>k. case chunks st k of
                          None \<Rightarrow> None
                        | Some r \<Rightarrow> if doc_id r = doc_id row \<and> chunk_hash r = chunk_hash row
                                    then None else Some r)(cid \<mapsto> row)\<rparr>"

text \<open>\<open>db.commit()\<close> makes the writes of the connection durable.\<close>

definition commit :: "connection \<Rightarrow> connection" where
  "commit db = db\<lparr>committed := session db\<rparr>"

text \<open>\<open>int(x)\<close> of a number truncates toward zero.\<close>

definition py_int :: "rat \<Rightarrow> int" where
  "py_int q = (if q < 0 then - \<lfloor>- q\<rfloor> else \<lfloor>q\<rfloor>)"

text \<open>\<open>str(n)\<close> of an integer, as an f-string formats it.\<close>

function digits :: "nat \<Rightarrow> pystr" where
  "digits n = (if n < 10 then [48 + n] else digits (n div 10) @ [48 + n mod 10])"
  by pat_completeness auto
termination
  by (relation "measure id") auto

declare digits.simps [simp del]

definition str_int :: "int \<Rightarrow> pystr" where
  "str_int i = (if i < 0 then 45 # digits (nat (- i)) else digits (nat i))"

text \<open>
  \<open>upsert_document\<close>. The result is what the function returns or raises, and the
  connection after the call. \<open>mtime\<close> is a number; \<open>row and row["file_hash"] == file_hash\<close>
  holds when a row was found and its hash is the computed one.
\<close>

definition upsert_document ::
  "(bytes \<Rightarrow> pystr) \<Rightarrow> (dbop \<Rightarrow> bool) \<Rightarrow> connection \<Rightarrow> pystr \<Rightarrow> pystr \<Rightarrow> pystr \<Rightarrow> rat
     \<Rightarrow> (error + bool) \<times> connection" where
  "upsert_document H fails db did path norm_text mtime =
     (case sha256_text H norm_text of
        Inl e \<Rightarrow> (Inl e, db)
      | Inr fh \<Rightarrow>
          if fails Select then (Inl DatabaseError, db)
          else (let row = documents (session db) did in
            if (case row of None \<Rightarrow> False | Some r \<Rightarrow> file_hash r = fh) then (Inr False, db)
            else if fails Replace then (Inl DatabaseError, db)
            else (let db1 = db\<lparr>session := replace_into_documents (session db) did path fh (py_int mtime)\<rparr>
              in if fails Commit then (Inl DatabaseError, db1)
                 else (Inr True, commit db1))))"

text \<open>
  \<open>persist_chunk\<close>. The f-strings build \<open>text|tok=..|seg=..\<close> and \<open>doc_id:prefix\<close>, where
  the prefix is \<open>chunk_hash[:12]\<close>.
\<close>

definition persist_chunk ::
  "(bytes \<Rightarrow> pystr) \<Rightarrow> int \<Rightarrow> int \<Rightarrow> (dbop \<Rightarrow> bool) \<Rightarrow> connection \<Rightarrow> pystr \<Rightarrow> pystr
     \<Rightarrow> int option \<Rightarrow> int option \<Rightarrow> pystr option \<Rightarrow> (error + pystr \<times> pystr) \<times> connection" where
  "persist_chunk H tok_ver seg_ver fails db did text page_s page_e section =
     (case sha256_text H text of
        Inl e \<Rightarrow> (Inl e, db)
      | Inr ch \<Rightarrow>
         (case sha256_text H (text @ py ''|tok='' @ str_int tok_ver @ py ''|seg='' @ str_int seg_ver) of
            Inl e \<Rightarrow> (Inl e, db)
          | Inr coh \<Rightarrow>
             (let chunk_id = did @ py '':'' @ take 12 ch in
              if fails Replace then (Inl DatabaseError, db)
              else (let db1 = db\<lparr>session := replace_into_chunks (session db) chunk_id
                        \<lparr>doc_id = did, page_start = page_s, page_end = page_e,
                         section_label = section, chunk_hash = ch, content_hash = coh,
                         chunk_text = text\<rparr>\<rparr>
                in if fails Commit then (Inl DatabaseError, db1)
                   else (Inr (chunk_id, coh), commit db1)))))"

text \<open>
  An injective stand-in for the hash function (two hexadecimal digits per byte), used
  where a theorem is instantiated at concrete inputs.
\<close>

definition hexdump :: "bytes \<Rightarrow> pystr" where
  "hexdump b =
     concat (map (\<lambda>x. [(if x div 16 < 10 then 48 else 87) + x div 16,
                       (if x mod 16 < 10 then 48 else 87) + x mod 16]) b)"

text \<open>The connection on a database whose tables are empty, as \<open>init_db\<close> leaves them.\<close>

definition empty_db :: connection where
  "empty_db = \<lparr>committed = \<lparr>documents = Map.empty, chunks = Map.empty\<rparr>,
               session = \<lparr>documents = Map.empty, chunks = Map.empty\<rparr>\<rparr>"

text \<open>The number that a string of decimal digits denotes.\<close>

definition undigits :: "pystr \<Rightarrow> nat" where
  "undigits s = foldl (\<lambda>acc c. 10 * acc + (c - 48)) 0 s"

text \<open>The suffix that \<open>persist_chunk\<close> appends to the chunk text before hashing it.\<close>

definition version_tag :: "int \<Rightarrow> int \<Rightarrow> pystr" where
  "version_tag tok seg = py ''|tok='' @ str_int tok @ py ''|seg='' @ str_int seg"

section \<open>Text extraction (ingestion/extract.py)\<close>

text \<open>
  A text block of a page as \<open>extractBLOCKS\<close> returns it: the tuple
  \<open>(x0, y0, x1, y1, text, ...)\<close>, of which the code reads the components 0, 1 and 4.
  Coordinates are numbers; the text may be \<open>None\<close>.
\<close>

record block =
  x0 :: rat
  y0 :: rat
  x1 :: rat
  y1 :: rat
  block_text :: "pystr option"

text \<open>
  A page: the blocks of its text layer, and what the recognizer reads from the page
  rasterized at a given zoom (\<open>pytesseract.image_to_string\<close> of the pixmap).
\<close>

record pdf_page =
  textpage :: "block list"
  recognized :: "rat \<Rightarrow> pystr"

text \<open>\<open>x or ""\<close> for a string that may be \<open>None\<close>.\<close>

definition or_empty :: "pystr option \<Rightarrow> pystr" where
  "or_empty x = (case x of None \<Rightarrow> [] | Some s \<Rightarrow> s)"

text \<open>\<open>_ocr_page(page, zoom)\<close>; the default of \<open>zoom\<close> is 2.0.\<close>

definition ocr_page :: "pdf_page \<Rightarrow> rat \<Rightarrow> pystr" where
  "ocr_page page zoom = recognized page zoom"

text \<open>
  \<open>_blocks_text\<close>. \<open>list.sort\<close> is stable, as \<open>sort_key\<close> is; the key is the pair of
  the rounded coordinates, compared lexicographically. \<open>round(x, 2)\<close> is the parameter
  \<open>rnd\<close>.
\<close>

definition blocks_text :: "(rat \<Rightarrow> rat) \<Rightarrow> block list \<Rightarrow> pystr" where
  "blocks_text rnd blocks =
     (let sorted_blocks = sort_key (\<lambda>b. (rnd (y0 b), rnd (x0 b))) blocks;
          parts = map (\<lambda>b. strip (or_empty (block_text b)))
                    (filter (\<lambda>b. strip (or_empty (block_text b)) \<noteq> []) sorted_blocks)
      in join [LF, LF] parts)"

text \<open>
  The loop of \<open>extract_pdf_text\<close> over the pages, with the list \<open>out_parts\<close> it appends
  to. The second accumulator records, page by page, whether the recognizer was called
  and at which zoom.
\<close>

fun extract_pages ::
  "(rat \<Rightarrow> rat) \<Rightarrow> pdf_page list \<Rightarrow> pystr list \<Rightarrow> rat option list
     \<Rightarrow> pystr list \<times> rat option list" where
  "extract_pages rnd [] out_parts calls = (out_parts, calls)"
| "extract_pages rnd (page # rest) out_parts calls =
     (let txt = strip (blocks_text rnd (textpage page))
      in if txt = []
         then extract_pages rnd rest (out_parts @ [strip (ocr_page page 2)]) (calls @ [Some 2])
         else extract_pages rnd rest (out_parts @ [txt]) (calls @ [None]))"

definition page_separator :: pystr where
  "page_separator = [LF, LF, FF, LF, LF]"

text \<open>
  \<open>extract_pdf_text\<close>. Opening the file is the parameter \<open>open_pdf\<close>: it raises or
  gives the pages. The result is the text together with the record of recognizer calls.
\<close>

definition extract_pdf_text ::
  "(codepoint \<Rightarrow> bool) \<Rightarrow> (rat \<Rightarrow> rat) \<Rightarrow> (pystr \<Rightarrow> error + pdf_page list) \<Rightarrow> pystr
     \<Rightarrow> error + pystr \<times> rat option list" where
  "extract_pdf_text uni rnd open_pdf file_path =
     (case open_pdf file_path of
        Inl e \<Rightarrow> Inl e
      | Inr doc \<Rightarrow>
          (let (out_parts, calls) = extract_pages rnd doc [] [];
               raw = strip (join page_separator out_parts)
           in Inr (normalize_text uni raw, calls)))"

text \<open>\<open>extract_docx_text\<close>; \<open>open_docx\<close> raises or gives the texts of the paragraphs.\<close>

definition extract_docx_text ::
  "(codepoint \<Rightarrow> bool) \<Rightarrow> (pystr \<Rightarrow> error + pystr list) \<Rightarrow> pystr \<Rightarrow> error + pystr" where
  "extract_docx_text uni open_docx file_path =
     (case open_docx file_path of
        Inl e \<Rightarrow> Inl e
      | Inr paragraphs \<Rightarrow> Inr (normalize_text uni (join [LF] paragraphs)))"

text \<open>
  The page text as the specification words it: the blocks in reading order, the empty ones
  discarded, the others joined with a blank line; the recognizer's text instead when
  that is empty.
\<close>

definition layout_text :: "(rat \<Rightarrow> rat) \<Rightarrow> pdf_page \<Rightarrow> pystr" where
  "layout_text rnd page =
     strip (join [LF, LF]
       (filter (\<lambda>t. t \<noteq> [])
          (map (\<lambda>b. strip (or_empty (block_text b)))
             (sort_key (\<lambda>b. (rnd (y0 b), rnd (x0 b))) (textpage page)))))"

definition page_text :: "(rat \<Rightarrow> rat) \<Rightarrow> pdf_page \<Rightarrow> pystr" where
  "page_text rnd page =
     (if layout_text rnd page = [] then strip (recognized page 2) else layout_text rnd page)"


text \<open>Two pages for concrete runs: one without text that the recognizer reads as empty, one with a single block.\<close>

definition blank_page :: pdf_page where
  "blank_page = \<lparr>textpage = [], recognized = (\<lambda>_. [])\<rparr>"

definition abc_page :: pdf_page where
  "abc_page = \<lparr>textpage = [\<lparr>x0 = 72, y0 = 72, x1 = 200, y1 = 90, block_text = Some (py ''abc'')\<rparr>],
                recognized = (\<lambda>_. py ''never read'')\<rparr>"

section \<open>More string operations\<close>

text \<open>
  \<open>str.lower\<close>: on a string of ASCII characters the capital letters are mapped to the
  small ones; on any other string it is the case mapping of the Unicode database, the
  parameter \<open>ulower\<close>.
\<close>

definition ascii_lower :: "codepoint \<Rightarrow> codepoint" where
  "ascii_lower c = (if 65 \<le> c \<and> c \<le> 90 then c + 32 else c)"

definition py_lower :: "(pystr \<Rightarrow> pystr) \<Rightarrow> pystr \<Rightarrow> pystr" where
  "py_lower ulower s = (if list_all (\<lambda>c. c < 128) s then map ascii_lower s else ulower s)"

text \<open>The line boundaries of \<open>str.splitlines\<close>; \<open>"\r\n"\<close> counts as one boundary.\<close>

definition is_linebreak :: "codepoint \<Rightarrow> bool" where
  "is_linebreak c \<longleftrightarrow>
     c = LF \<or> c = 11 \<or> c = FF \<or> c = CR \<or> c = 28 \<or> c = 29 \<or> c = 30 \<or> c = 0x85 \<or>
     c = 0x2028 \<or> c = 0x2029"

function splitlines_from :: "pystr \<Rightarrow> pystr \<Rightarrow> pystr list" where
  "splitlines_from cur [] = (if cur = [] then [] else [cur])"
| "splitlines_from cur (c # cs) =
     (if c = CR \<and> take 1 cs = [LF] then cur # splitlines_from [] (drop 1 cs)
      else if is_linebreak c then cur # splitlines_from [] cs
      else splitlines_from (cur @ [c]) cs)"
  by pat_completeness auto
termination
  by (relation "measure (\<lambda>(cur, s). length s)") auto

definition splitlines :: "pystr \<Rightarrow> pystr list" where
  "splitlines s = splitlines_from [] s"

text \<open>\<open>os.path.join(a, b)\<close> on POSIX paths.\<close>

definition path_join :: "pystr \<Rightarrow> pystr \<Rightarrow> pystr" where
  "path_join a b =
     (if take 1 b = [47] then b
      else if a = [] \<or> last a = 47 then a @ b
      else a @ [47] @ b)"

section \<open>Title extraction (routes/corpus.py)\<close>

definition Unknown :: pystr where
  "Unknown = py ''Unknown''"

text \<open>
  The answer of the model: the \<open>content\<close> of each element of \<open>resp.choices\<close>, which may
  be \<open>None\<close>.
\<close>

type_synonym completion = "pystr option list"

text \<open>
  The first non-blank line of the candidate, stripped, then stripped of double quotes,
  single quotes and spaces: \<open>next((ln.strip() for ln in candidate.splitlines() if
  ln.strip()), "")\<close> followed by \<open>.strip('"\' ')\<close>.
\<close>

fun next_or_empty :: "pystr list \<Rightarrow> pystr" where
  "next_or_empty [] = []"
| "next_or_empty (line # _) = line"

definition title_line :: "pystr \<Rightarrow> pystr" where
  "title_line candidate =
     strip_chars [34, 39, 32]
       (next_or_empty (filter (\<lambda>line. line \<noteq> []) (map strip (splitlines candidate))))"

text \<open>
  The block that \<open>_extract_pdf_title\<close> and \<open>_extract_docx_title\<close> share word for word:
  the call of the model inside \<open>try\<close>, the reading of the answer, and
  \<open>except Exception: return "Unknown"\<close>. The argument is the outcome of
  \<open>client.chat.completions.create\<close>.
\<close>

definition title_from_completion :: "(pystr \<Rightarrow> pystr) \<Rightarrow> error + completion \<Rightarrow> pystr" where
  "title_from_completion ulower outcome =
     (case outcome of
        Inl e \<Rightarrow> Unknown
      | Inr choices \<Rightarrow>
          (let content = (case choices of [] \<Rightarrow> Some [] | c # _ \<Rightarrow> c);
               candidate = strip (or_empty content)
           in if candidate = [] then Unknown
              else (let t = title_line candidate
                    in if t = [] \<or> py_lower ulower t = py ''unknown'' \<or> length t > 200
                       then Unknown else t)))"

text \<open>
  What the two functions read from the application: the API key and the base URL
  (\<open>config.get(...) or os.getenv(...)\<close>, so \<open>None\<close> and the empty string are both
  absent), the constructor of the client, which may raise, and the client's completion
  call as a function of the prompt.
\<close>

record app =
  api_key :: "pystr option"
  base_url :: "pystr option"
  new_client :: "pystr \<Rightarrow> pystr option \<Rightarrow> error + (pystr \<Rightarrow> error + completion)"

definition truthy :: "pystr option \<Rightarrow> bool" where
  "truthy x \<longleftrightarrow> or_empty x \<noteq> []"

text \<open>\<open>x or None\<close> for an optional string.\<close>

definition or_none :: "pystr option \<Rightarrow> pystr option" where
  "or_none x = (if truthy x then x else None)"

definition pdf_prompt :: "pystr \<Rightarrow> pystr" where
  "pdf_prompt snippet =
     py ''Extract the document's title from the following first PDF page text.'' @ [LF] @
     py ''Return ONLY the title (no quotes, no extra words). If you cannot confidently identify a distinct title, respond exactly with: Unknown'' @ [LF, LF] @
     py ''--- PAGE TEXT START ---'' @ [LF] @ snippet @ [LF] @ py ''--- PAGE TEXT END ---''"


text \<open>
  The uploaded file as \<open>_extract_pdf_title\<close> uses it: \<open>file.stream.tell()\<close>,
  \<open>file.read()\<close>, and \<open>fitz.open(stream=data)\<close>, which raises or gives the result of
  \<open>get_text()\<close> for every page.
\<close>

record pdf_upload =
  stream_tell :: "error + nat"
  stream_read :: "error + bytes"
  open_stream :: "bytes \<Rightarrow> error + pystr option list"

text \<open>
  \<open>_extract_pdf_title\<close>. Its \<open>try\<close> has a \<open>finally\<close> and no \<open>except\<close>: the
  \<open>finally\<close> block puts the stream back (its own failure is swallowed) and an exception
  of the body goes on to the caller. Only the call of the model has a handler.
\<close>

definition extract_pdf_title :: "(pystr \<Rightarrow> pystr) \<Rightarrow> app \<Rightarrow> pdf_upload \<Rightarrow> error + pystr" where
  "extract_pdf_title ulower cfg file =
     (case stream_tell file of
        Inl e \<Rightarrow> Inl e
      | Inr pos \<Rightarrow>
     (case stream_read file of
        Inl e \<Rightarrow> Inl e
      | Inr data \<Rightarrow>
          if data = [] then Inr Unknown
          else (case open_stream file data of
             Inl e \<Rightarrow> Inl e
           | Inr pdf \<Rightarrow>
               (case pdf of
                  [] \<Rightarrow> Inr Unknown
                | page # _ \<Rightarrow>
                    (let text = strip (or_empty page) in
                     if text = [] then Inr Unknown
                     else (let snippet = take 8000 text in
                       if \<not> truthy (api_key cfg) then Inr Unknown
                       else (case new_client cfg (or_empty (api_key cfg))
                                   (or_none (base_url cfg)) of
                          Inl e \<Rightarrow> Inl e
                        | Inr create \<Rightarrow>
                            Inr (title_from_completion ulower (create (pdf_prompt snippet))))))))))"







definition broken_pdf :: pdf_upload where
  "broken_pdf = \<lparr>stream_tell = Inr 0, stream_read = Inr [104, 105],
                  open_stream = (\<lambda>data. Inl FileError)\<rparr>"


section \<open>The upload endpoint (routes/corpus.py)\<close>

definition ALLOWED_EXTENSIONS :: "pystr list" where
  "ALLOWED_EXTENSIONS = [py ''pdf'', py ''doc'', py ''docx'']"

text \<open>\<open>filename.rsplit('.', 1)[1]\<close> for a name that holds a dot: what follows the last dot.\<close>

definition after_last_dot :: "pystr \<Rightarrow> pystr" where
  "after_last_dot s = rev (takeWhile (\<lambda>c. c \<noteq> 46) (rev s))"

definition allowed_file :: "(pystr \<Rightarrow> pystr) \<Rightarrow> pystr \<Rightarrow> bool" where
  "allowed_file ulower filename \<longleftrightarrow>
     46 \<in> set filename \<and> py_lower ulower (after_last_dot filename) \<in> set ALLOWED_EXTENSIONS"

text \<open>
  \<open>_get_text\<close>: the extractor is chosen by the ending of the path; any other path gives
  the text \<open>Untitled\<close>. The record of recognizer calls is dropped.
\<close>

definition get_text ::
  "(codepoint \<Rightarrow> bool) \<Rightarrow> (rat \<Rightarrow> rat) \<Rightarrow> (pystr \<Rightarrow> error + pdf_page list)
     \<Rightarrow> (pystr \<Rightarrow> error + pystr list) \<Rightarrow> pystr \<Rightarrow> error + pystr" where
  "get_text uni rnd open_pdf open_docx file_path =
     (if suffix (py ''.pdf'') file_path
      then (case extract_pdf_text uni rnd open_pdf file_path of
              Inl e \<Rightarrow> Inl e
            | Inr (text, calls) \<Rightarrow> Inr text)
      else if suffix (py ''.doc'') file_path \<or> suffix (py ''.docx'') file_path
      then extract_docx_text uni open_docx file_path
      else Inr (py ''Untitled''))"

text \<open>
  The uploaded file of the request (\<open>filename\<close> may be \<open>None\<close> or empty; \<open>save\<close> may
  raise), and what the handler reads from its surroundings: the identifier that
  \<open>uuid.uuid4()\<close> returns, the clock, and the upload folder.
\<close>

record upload =
  filename :: "pystr option"
  save_raises :: bool

record surroundings =
  uuid4 :: pystr
  utc_timestamp :: rat
  upload_folder :: pystr

text \<open>A response: the JSON object as a list of pairs, and the status code.\<close>

type_synonym response = "(pystr \<times> pystr) list \<times> nat"

text \<open>
  \<open>add_doc\<close>. The argument \<open>request_file\<close> is \<open>None\<close> when the form has no part
  \<open>file\<close>. An exception of the extraction or of the store goes on to the framework. The
  handler calls \<open>_get_text\<close> and \<open>upsert_document\<close>; \<open>_get_title\<close> and
  \<open>persist_chunk\<close> are not called.
\<close>

definition add_doc ::
  "(bytes \<Rightarrow> pystr) \<Rightarrow> (codepoint \<Rightarrow> bool) \<Rightarrow> (rat \<Rightarrow> rat) \<Rightarrow> (pystr \<Rightarrow> pystr)
     \<Rightarrow> (pystr \<Rightarrow> error + pdf_page list) \<Rightarrow> (pystr \<Rightarrow> error + pystr list)
     \<Rightarrow> (dbop \<Rightarrow> bool) \<Rightarrow> surroundings \<Rightarrow> connection \<Rightarrow> upload option
     \<Rightarrow> (error + response) \<times> connection" where
  "add_doc H uni rnd ulower open_pdf open_docx fails env db request_file =
     (case request_file of
        None \<Rightarrow> (Inr ([(py ''error'', py ''No file part'')], 400), db)
      | Some file \<Rightarrow>
          if or_empty (filename file) = []
          then (Inr ([(py ''error'', py ''No selected file'')], 400), db)
          else if \<not> allowed_file ulower (or_empty (filename file))
          then (Inr ([(py ''error'', py ''Unsupported file type. Allowed: PDF, DOC, DOCX'')], 400), db)
          else (let did = uuid4 env;
                    mtime_epoch = py_int (utc_timestamp env);
                    file_path = path_join (upload_folder env) did
                in if save_raises file
                   then (Inr ([(py ''error'', py ''Failed to save file'')], 500), db)
                   else (case get_text uni rnd open_pdf open_docx file_path of
                           Inl e \<Rightarrow> (Inl e, db)
                         | Inr text \<Rightarrow>
                             (case upsert_document H fails db did file_path text (of_int mtime_epoch) of
                                (Inl e, db1) \<Rightarrow> (Inl e, db1)
                              | (Inr changed, db1) \<Rightarrow>
                                  (Inr ([(py ''message'', py ''Document uploaded successfully.''),
                                         (py ''filename'', did)], 201), db1)))))"

text \<open>No document row of a store has a title.\<close>

definition untitled :: "store \<Rightarrow> bool" where
  "untitled st \<longleftrightarrow> (\<forall>d row. documents st d = Some row \<longrightarrow> title row = None)"

text \<open>
  For concrete runs: a store whose document \<open>d1\<close> has a title, as another writer
  could have left it, and surroundings of the upload handler.
\<close>

definition titled_db :: connection where
  "titled_db =
     (let st = \<lparr>documents = [py ''d1'' \<mapsto> \<lparr>source_path = py ''/u/d1'', title = Some (py ''Old''),
                                  file_hash = py ''00'', modified_at = 1\<rparr>],
                chunks = Map.empty\<rparr>
      in \<lparr>committed = st, session = st\<rparr>)"

definition demo_surroundings :: surroundings where
  "demo_surroundings = \<lparr>uuid4 = py ''u1'', utc_timestamp = 7 / 2, upload_folder = py ''/up''\<rparr>"

section \<open>Properties of the normalizer\<close>

lemma triple_newline_Cons:
  "triple_newline (a # s) \<longleftrightarrow> (a = LF \<and> take 2 s = [LF, LF]) \<or> triple_newline s"
proof (cases s)
  case Nil
  then show ?thesis by simp
next
  case (Cons b t)
  then show ?thesis by (cases t) auto
qed

lemma triple_newline_sublist: "triple_newline s \<longleftrightarrow> sublist [LF, LF, LF] s"
proof (induction s rule: triple_newline.induct)
  case (1 a b c rest)
  then show ?case
    by (simp add: sublist_Cons_right[of _ a])
qed (auto simp: sublist_Cons_right)

lemma collapse_breaks_head: "\<exists>t. collapse_breaks (b # r) = b # t"
  by simp

lemma collapse_breaks_take2:
  assumes "take 2 (collapse_breaks cs) = [LF, LF]"
  shows "take 2 cs = [LF, LF]"
proof (cases cs)
  case Nil
  with assms show ?thesis by simp
next
  case (Cons a r)
  show ?thesis
  proof (cases r)
    case Nil
    with Cons assms show ?thesis by simp
  next
    case (Cons b r')
    obtain t where t: "collapse_breaks (b # r') = b # t"
      using collapse_breaks_head by blast
    show ?thesis
    proof (cases "a = LF \<and> take 2 r = [LF, LF]")
      case True
      with Cons \<open>cs = a # r\<close> show ?thesis by simp
    next
      case False
      have "collapse_breaks (a # r) = a # collapse_breaks r"
        by (simp only: collapse_breaks.simps if_not_P[OF False])
      then have "collapse_breaks cs = a # b # t"
        using Cons \<open>cs = a # r\<close> t by (simp del: collapse_breaks.simps)
      with assms Cons \<open>cs = a # r\<close> show ?thesis by simp
    qed
  qed
qed

lemma collapse_breaks_no_lead:
  assumes "s = [] \<or> hd s \<noteq> LF"
  shows "take 2 (LF # collapse_breaks s) \<noteq> [LF, LF]"
proof (cases s)
  case Nil
  then show ?thesis by simp
next
  case (Cons b r)
  with assms have "b \<noteq> LF" by simp
  moreover obtain t where "collapse_breaks (b # r) = b # t"
    using collapse_breaks_head by blast
  ultimately show ?thesis using Cons by simp
qed

lemma take2_tail: "take 2 (LF # t) \<noteq> [LF, LF] \<Longrightarrow> take 2 t \<noteq> [LF, LF]"
  by (cases t) auto

lemma dropWhile_head: "dropWhile P s = [] \<or> \<not> P (hd (dropWhile P s))"
  using hd_dropWhile by blast

lemma collapse_breaks_no_triple: "\<not> triple_newline (collapse_breaks s)"
proof (induction s rule: collapse_breaks.induct)
  case 1
  then show ?case by simp
next
  case (2 c cs)
  show ?case
  proof (cases "c = LF \<and> take 2 cs = [LF, LF]")
    case True
    let ?r = "dropWhile (\<lambda>x. x = LF) cs"
    have r: "?r = [] \<or> hd ?r \<noteq> LF"
      using dropWhile_head[of "\<lambda>x. x = LF" cs] by simp
    have "\<not> triple_newline (collapse_breaks ?r)"
      using 2(1) True by simp
    moreover have "take 2 (LF # collapse_breaks ?r) \<noteq> [LF, LF]"
      using collapse_breaks_no_lead[OF r] .
    moreover have "take 2 (collapse_breaks ?r) \<noteq> [LF, LF]"
      using collapse_breaks_no_lead[OF r] take2_tail by blast
    ultimately have "\<not> triple_newline (LF # LF # collapse_breaks ?r)"
      by (simp only: triple_newline_Cons) simp
    with True show ?thesis by simp
  next
    case False
    have eq: "collapse_breaks (c # cs) = c # collapse_breaks cs"
      by (simp only: collapse_breaks.simps if_not_P[OF False])
    have "\<not> triple_newline (collapse_breaks cs)"
      using 2(2) False by simp
    moreover have "\<not> (c = LF \<and> take 2 (collapse_breaks cs) = [LF, LF])"
      using False collapse_breaks_take2 by blast
    ultimately show ?thesis
      unfolding eq triple_newline_Cons by simp
  qed
qed

lemma set_collapse_breaks: "set (collapse_breaks s) \<subseteq> set s"
proof (induction s rule: collapse_breaks.induct)
  case 1
  then show ?case by simp
next
  case (2 c cs)
  have "set (dropWhile (\<lambda>x. x = LF) cs) \<subseteq> set cs"
    by (simp add: set_dropWhileD subsetI)
  with 2 show ?case by (auto split: if_splits)
qed

lemma set_dehyphenate: "set (dehyphenate uni s) \<subseteq> set s"
  by (induction uni s rule: dehyphenate.induct) auto

lemma set_re_sub_set: "set (re_sub_set cls repl s) \<subseteq> (set s - set cls) \<union> set repl"
  by (auto simp: re_sub_set_def split: if_splits)

lemma str_replace_single_removed:
  "c \<notin> set new \<Longrightarrow> c \<notin> set (str_replace [c] new s)"
  by (induction "[c]" new s rule: str_replace.induct) auto

lemma normalize_text_chars:
  "set (normalize_text uni s) \<subseteq>
     (set (str_replace [CR] [LF] (str_replace [CR, LF] [LF] s))
        - {0x201C, 0x201D, 0x2018, 0x2019}) \<union> {34, 39}"
proof -
  let ?s1 = "str_replace [CR] [LF] (str_replace [CR, LF] [LF] s)"
  let ?s2 = "re_sub_set [0x201C, 0x201D] [34] ?s1"
  let ?s3 = "re_sub_set [0x2018, 0x2019] [39] ?s2"
  have "set (normalize_text uni s) \<subseteq> set ?s3"
    using set_collapse_breaks[of "dehyphenate uni ?s3"] set_dehyphenate[of uni ?s3]
    by (simp add: normalize_text_def Let_def)
  moreover have "set ?s3 \<subseteq> (set ?s2 - {0x2018, 0x2019}) \<union> {39}"
    using set_re_sub_set[of "[0x2018, 0x2019]" "[39]" ?s2] by simp
  moreover have "set ?s2 \<subseteq> (set ?s1 - {0x201C, 0x201D}) \<union> {34}"
    using set_re_sub_set[of "[0x201C, 0x201D]" "[34]" ?s1] by simp
  ultimately show ?thesis by blast
qed

text \<open>
  C9. Whatever the input, the normalizer's output holds no carriage return, none of the
  four curly quote characters U+201C, U+201D, U+2018, U+2019, and no run of three or more
  newline characters.
\<close>

theorem normalize_text_output_invariants:
  "CR \<notin> set (normalize_text uni s) \<and>
   0x201C \<notin> set (normalize_text uni s) \<and> 0x201D \<notin> set (normalize_text uni s) \<and>
   0x2018 \<notin> set (normalize_text uni s) \<and> 0x2019 \<notin> set (normalize_text uni s) \<and>
   \<not> sublist [LF, LF, LF] (normalize_text uni s)"
proof -
  have cr: "CR \<notin> set (str_replace [CR] [LF] (str_replace [CR, LF] [LF] s))"
    by (rule str_replace_single_removed) simp
  have "CR \<notin> set (normalize_text uni s)"
    using normalize_text_chars[of uni s] cr by auto
  moreover have "0x201C \<notin> set (normalize_text uni s)" "0x201D \<notin> set (normalize_text uni s)"
    "0x2018 \<notin> set (normalize_text uni s)" "0x2019 \<notin> set (normalize_text uni s)"
    using normalize_text_chars[of uni s] by auto
  moreover have "\<not> sublist [LF, LF, LF] (normalize_text uni s)"
    using collapse_breaks_no_triple
    by (simp add: normalize_text_def Let_def triple_newline_sublist[symmetric])
  ultimately show ?thesis by blast
qed

text \<open>
  C2. Idempotence of the normalizer fails on two soft wraps that share a word character:
  in \<open>a-\nb-\nc\<close> the first pass joins \<open>a\<close> and \<open>b\<close> and resumes behind \<open>b\<close>, so the wrap
  between \<open>b\<close> and \<open>c\<close> is left for a second pass to remove.
\<close>

theorem normalize_text_not_idempotent:
  "normalize_text uni [97, 45, LF, 98, 45, LF, 99] = [97, 98, 45, LF, 99] \<and>
   normalize_text uni (normalize_text uni [97, 45, LF, 98, 45, LF, 99]) = [97, 98, 99] \<and>
   normalize_text uni (normalize_text uni [97, 45, LF, 98, 45, LF, 99])
     \<noteq> normalize_text uni [97, 45, LF, 98, 45, LF, 99]"
  by (simp add: normalize_text_def re_sub_set_def re_word_def ascii_word_def)

text \<open>
  C7. The de-hyphenation rule does not collapse every occurrence of a word character,
  a hyphen, a newline and a word character: of two occurrences that overlap in a word
  character only the left one is collapsed, and the output still contains the other.
\<close>

theorem dehyphenate_misses_overlap:
  "dehyphenate uni [120, 45, LF, 121, 45, LF, 122] = [120, 121, 45, LF, 122] \<and>
   sublist [121, 45, LF, 122] (normalize_text uni [120, 45, LF, 121, 45, LF, 122]) \<and>
   re_word uni 121 \<and> re_word uni 122"
proof -
  have "normalize_text uni [120, 45, LF, 121, 45, LF, 122] = [120] @ [121, 45, LF, 122] @ []"
    by (simp add: normalize_text_def re_sub_set_def re_word_def ascii_word_def)
  then have "sublist [121, 45, LF, 122] (normalize_text uni [120, 45, LF, 121, 45, LF, 122])"
    by (simp only: sublist_appendI)
  then show ?thesis
    by (simp add: re_word_def ascii_word_def)
qed

lemma upsert_document_unchanged:
  assumes "sha256_text H t = Inr h" "\<not> fails Select"
    and "documents (session db) d = Some row" "file_hash row = h"
  shows "upsert_document H fails db d p t m = (Inr False, db)"
  using assms by (simp add: upsert_document_def)

lemma upsert_document_changed:
  assumes "sha256_text H t = Inr h" "\<not> fails Select" "\<not> fails Replace" "\<not> fails Commit"
    and "\<forall>row. documents (session db) d = Some row \<longrightarrow> file_hash row \<noteq> h"
  shows "upsert_document H fails db d p t m =
           (Inr True,
            \<lparr>committed = replace_into_documents (session db) d p h (py_int m),
             session = replace_into_documents (session db) d p h (py_int m)\<rparr>)"
  using assms by (auto simp: upsert_document_def commit_def Let_def split: option.splits)

lemma upsert_document_stores_hash:
  assumes "sha256_text H t = Inr h" "\<not> fails Select" "\<not> fails Replace" "\<not> fails Commit"
    and "upsert_document H fails db d p t m = (r, db')"
  shows "\<exists>row. documents (session db') d = Some row \<and> file_hash row = h"
  using assms
  by (auto simp: upsert_document_def commit_def Let_def replace_into_documents_def
      split: option.splits if_splits)

lemma utf8_char_ascii: "c < 128 \<Longrightarrow> utf8_char c = Inr [c]"
  by (simp add: utf8_char_def)

lemma encode_utf8_ascii: "\<forall>c\<in>set s. c < 128 \<Longrightarrow> encode_utf8 s = Inr s"
  by (induction s) (simp_all add: utf8_char_ascii)

lemma encode_utf8_append:
  "encode_utf8 s = Inr b \<Longrightarrow> encode_utf8 t = Inr b' \<Longrightarrow> encode_utf8 (s @ t) = Inr (b @ b')"
  by (induction s arbitrary: b) (auto split: sum.splits)

lemma digits_range: "\<forall>c\<in>set (digits n). 48 \<le> c \<and> c \<le> 57"
proof (induction n rule: digits.induct)
  case (1 n)
  show ?case
  proof (cases "n < 10")
    case True
    then show ?thesis by (subst digits.simps) simp
  next
    case False
    have "n mod 10 < 10" by simp
    then have "48 + n mod 10 \<le> 57" by linarith
    with 1[OF False] False show ?thesis by (subst digits.simps) simp
  qed
qed

lemma digits_nonempty: "digits n \<noteq> []"
  by (subst digits.simps) simp

lemma undigits_digits: "undigits (digits n) = n"
proof (induction n rule: digits.induct)
  case (1 n)
  show ?case
  proof (cases "n < 10")
    case True
    then show ?thesis by (subst digits.simps) (simp add: undigits_def)
  next
    case False
    have "undigits (digits (n div 10) @ [48 + n mod 10]) = 10 * undigits (digits (n div 10)) + n mod 10"
      by (simp add: undigits_def)
    with 1[OF False] False show ?thesis by (subst digits.simps) simp
  qed
qed

lemma digits_inj: "digits n = digits m \<Longrightarrow> n = m"
  by (metis undigits_digits)

lemma str_int_inj: "str_int i = str_int j \<Longrightarrow> i = j"
proof -
  assume eq: "str_int i = str_int j"
  have hd_digit: "hd (digits n) \<noteq> 45" for n
    using digits_range[of n] digits_nonempty[of n] by (cases "digits n") auto
  have ne: "45 # digits a \<noteq> digits b" for a b
    using hd_digit[of b] by (cases "digits b") auto
  show ?thesis
  proof (cases "i < 0"; cases "j < 0")
    assume "i < 0" "j < 0"
    with eq have "nat (- i) = nat (- j)" by (simp add: str_int_def digits_inj)
    with \<open>i < 0\<close> \<open>j < 0\<close> show ?thesis by linarith
  next
    assume "i < 0" "\<not> j < 0"
    with eq ne show ?thesis by (simp add: str_int_def)
  next
    assume "\<not> i < 0" "j < 0"
    with eq ne[of "nat (- j)" "nat i"] show ?thesis by (simp add: str_int_def)
  next
    assume "\<not> i < 0" "\<not> j < 0"
    with eq have "nat i = nat j" by (simp add: str_int_def digits_inj)
    with \<open>\<not> i < 0\<close> \<open>\<not> j < 0\<close> show ?thesis by linarith
  qed
qed

lemma str_int_ascii: "\<forall>c\<in>set (str_int i). c < 128 \<and> c \<noteq> 124"
proof
  fix c assume c: "c \<in> set (str_int i)"
  then have "c = 45 \<or> c \<in> set (digits (nat (- i))) \<or> c \<in> set (digits (nat i))"
    by (auto simp: str_int_def split: if_splits)
  then have "c = 45 \<or> (48 \<le> c \<and> c \<le> 57)"
    using digits_range by blast
  then show "c < 128 \<and> c \<noteq> 124" by auto
qed

lemma split_at_bar:
  assumes "x @ 124 # r = y @ 124 # r'" "124 \<notin> set x" "124 \<notin> set y"
  shows "x = y \<and> r = (r' :: nat list)"
  using assms
proof (induction x arbitrary: y)
  case Nil
  then show ?case by (cases y) auto
next
  case (Cons a x)
  then show ?case by (cases y) auto
qed

lemma version_tag_inj:
  assumes "version_tag a b = version_tag c d"
  shows "a = c \<and> b = d"
proof -
  have bar: "124 \<notin> set (str_int i)" for i
    using str_int_ascii[of i] by auto
  from assms have "str_int a @ 124 # (py ''seg='' @ str_int b) = str_int c @ 124 # (py ''seg='' @ str_int d)"
    by (simp add: version_tag_def py_def)
  from split_at_bar[OF this bar bar]
  have "str_int a = str_int c" "str_int b = str_int d" by simp_all
  then show ?thesis using str_int_inj by blast
qed

lemma version_tag_ascii: "\<forall>c\<in>set (version_tag a b). c < 128"
  using str_int_ascii by (auto simp: version_tag_def py_def)

lemma sha256_text_versioned:
  assumes "encode_utf8 text = Inr b"
  shows "sha256_text H text = Inr (H b)"
    and "sha256_text H (text @ py ''|tok='' @ str_int tok @ py ''|seg='' @ str_int seg)
           = Inr (H (b @ version_tag tok seg))"
proof -
  show "sha256_text H text = Inr (H b)"
    using assms by (simp add: sha256_text_def sha256_bytes_def)
  have "encode_utf8 (version_tag tok seg) = Inr (version_tag tok seg)"
    by (rule encode_utf8_ascii) (rule version_tag_ascii)
  then have "encode_utf8 (text @ version_tag tok seg) = Inr (b @ version_tag tok seg)"
    using assms encode_utf8_append by blast
  then show "sha256_text H (text @ py ''|tok='' @ str_int tok @ py ''|seg='' @ str_int seg)
           = Inr (H (b @ version_tag tok seg))"
    by (simp add: sha256_text_def sha256_bytes_def version_tag_def)
qed

lemma persist_chunk_ok:
  assumes enc: "encode_utf8 text = Inr b"
    and ok: "\<forall>op. \<not> fails op"
  shows "persist_chunk H tok seg fails db did text ps pe sec =
          (Inr (did @ py '':'' @ take 12 (H b), H (b @ version_tag tok seg)),
           commit (db\<lparr>session := replace_into_chunks (session db) (did @ py '':'' @ take 12 (H b))
              \<lparr>doc_id = did, page_start = ps, page_end = pe, section_label = sec,
               chunk_hash = H b, content_hash = H (b @ version_tag tok seg),
               chunk_text = text\<rparr>\<rparr>))"
  using ok by (simp add: persist_chunk_def sha256_text_versioned[OF enc] Let_def)

text \<open>
  C1. When the normalized text can be encoded and no call on the connection fails,
  \<open>upsert_document\<close> hashes the text; if the document row exists with that hash it returns
  \<open>False\<close> and leaves the connection as it was; otherwise it replaces the row, commits and
  returns \<open>True\<close>. After any such call a second call with the same text returns \<open>False\<close>
  and writes nothing, and a call with another text, whose digest the hash function keeps
  apart from the first, returns \<open>True\<close> and stores the other digest.
\<close>

theorem upsert_document_change_detection:
  assumes enc: "sha256_text H norm_text = Inr h"
    and ok: "\<forall>op. \<not> fails op"
  shows "upsert_document H fails db d p norm_text m =
           (if \<exists>row. documents (session db) d = Some row \<and> file_hash row = h
            then (Inr False, db)
            else (Inr True,
                  \<lparr>committed = replace_into_documents (session db) d p h (py_int m),
                   session = replace_into_documents (session db) d p h (py_int m)\<rparr>)) \<and>
         (\<exists>r db1. upsert_document H fails db d p norm_text m = (r, db1) \<and>
            (\<exists>row. documents (session db1) d = Some row \<and> file_hash row = h) \<and>
            upsert_document H fails db1 d p' norm_text m' = (Inr False, db1) \<and>
            (\<forall>text' h'. sha256_text H text' = Inr h' \<and> norm_text \<noteq> text' \<and>
                 inj_on (sha256_text H) {norm_text, text'} \<longrightarrow>
               (\<exists>db2 row2. upsert_document H fails db1 d p' text' m' = (Inr True, db2) \<and>
                  documents (session db2) d = Some row2 \<and> documents (committed db2) d = Some row2 \<and>
                  file_hash row2 = h' \<and> h' \<noteq> h)))"
proof -
  let ?res = "upsert_document H fails db d p norm_text m"
  let ?db1 = "snd ?res"
  have nf: "\<not> fails Select" "\<not> fails Replace" "\<not> fails Commit"
    using ok by simp_all
  have first: "?res =
           (if \<exists>row. documents (session db) d = Some row \<and> file_hash row = h
            then (Inr False, db)
            else (Inr True,
                  \<lparr>committed = replace_into_documents (session db) d p h (py_int m),
                   session = replace_into_documents (session db) d p h (py_int m)\<rparr>))"
  proof (cases "\<exists>row. documents (session db) d = Some row \<and> file_hash row = h")
    case True
    then show ?thesis
      using upsert_document_unchanged[of H norm_text h fails db d _ p m] enc nf(1) by auto
  next
    case False
    then show ?thesis
      using upsert_document_changed[of H norm_text h fails db d p m] enc nf by auto
  qed
  obtain row where row: "documents (session ?db1) d = Some row" "file_hash row = h"
    using upsert_document_stores_hash[of H norm_text h fails db d p m] enc nf
    by (metis prod.collapse)
  have again: "upsert_document H fails ?db1 d p' norm_text m' = (Inr False, ?db1)"
    using upsert_document_unchanged[of H norm_text h fails ?db1 d row p' m'] enc nf(1) row
    by simp
  have alt: "\<exists>db2 row2. upsert_document H fails ?db1 d p' text' m' = (Inr True, db2) \<and>
                  documents (session db2) d = Some row2 \<and> documents (committed db2) d = Some row2 \<and>
                  file_hash row2 = h' \<and> h' \<noteq> h"
    if a: "sha256_text H text' = Inr h' \<and> norm_text \<noteq> text' \<and>
           inj_on (sha256_text H) {norm_text, text'}" for text' h'
  proof -
    have hne: "h' \<noteq> h"
    proof
      assume "h' = h"
      then have "sha256_text H norm_text = sha256_text H text'"
        using enc a by metis
      moreover have "inj_on (sha256_text H) {norm_text, text'}" "norm_text \<noteq> text'"
        using a by blast+
      ultimately show False by (meson inj_onD insertI1 insertI2)
    qed
    have "\<forall>r. documents (session ?db1) d = Some r \<longrightarrow> file_hash r \<noteq> h'"
      using row hne by auto
    then have "upsert_document H fails ?db1 d p' text' m' =
           (Inr True,
            \<lparr>committed = replace_into_documents (session ?db1) d p' h' (py_int m'),
             session = replace_into_documents (session ?db1) d p' h' (py_int m')\<rparr>)"
      using upsert_document_changed[of H text' h' fails ?db1 d p' m'] a nf by blast
    then show ?thesis
      using hne by (simp add: replace_into_documents_def)
  qed
  have "\<exists>r db1. ?res = (r, db1) \<and>
            (\<exists>row. documents (session db1) d = Some row \<and> file_hash row = h) \<and>
            upsert_document H fails db1 d p' norm_text m' = (Inr False, db1) \<and>
            (\<forall>text' h'. sha256_text H text' = Inr h' \<and> norm_text \<noteq> text' \<and>
                 inj_on (sha256_text H) {norm_text, text'} \<longrightarrow>
               (\<exists>db2 row2. upsert_document H fails db1 d p' text' m' = (Inr True, db2) \<and>
                  documents (session db2) d = Some row2 \<and> documents (committed db2) d = Some row2 \<and>
                  file_hash row2 = h' \<and> h' \<noteq> h))"
    apply (rule exI[of _ "fst ?res"])
    apply (rule exI[of _ ?db1])
    using row again alt by auto
  with first show ?thesis by blast
qed

lemma hexdump_abc: "sha256_text hexdump (py ''abc'') = Inr (py ''616263'')"
  by (simp add: sha256_text_def sha256_bytes_def hexdump_def py_def utf8_char_def)

lemma hexdump_abd: "sha256_text hexdump (py ''abd'') = Inr (py ''616264'')"
  by (simp add: sha256_text_def sha256_bytes_def hexdump_def py_def utf8_char_def)

text \<open>
  The theorem at concrete inputs. The hash function is instantiated with \<open>hexdump\<close>; the
  texts \<open>abc\<close> and \<open>abd\<close> differ in one character.
\<close>

theorem upsert_document_change_detection_witness:
  "sha256_text hexdump (py ''abc'') = Inr (py ''616263'') \<and>
   sha256_text hexdump (py ''abd'') = Inr (py ''616264'') \<and>
   (\<exists>db1 db2 row2.
      upsert_document hexdump (\<lambda>_. False) empty_db (py ''d1'') (py ''/u/d1'') (py ''abc'') 5
        = (Inr True, db1) \<and>
      upsert_document hexdump (\<lambda>_. False) db1 (py ''d1'') (py ''/u/d1'') (py ''abc'') 6
        = (Inr False, db1) \<and>
      upsert_document hexdump (\<lambda>_. False) db1 (py ''d1'') (py ''/u/d1'') (py ''abd'') 6
        = (Inr True, db2) \<and>
      documents (committed db2) (py ''d1'') = Some row2 \<and>
      file_hash row2 = py ''616264'')"
proof -
  have ok: "\<forall>op. \<not> (\<lambda>_::dbop. False) op" by simp
  have ne: "py ''abc'' \<noteq> py ''abd''" by (simp add: py_def)
  have inj: "inj_on (sha256_text hexdump) {py ''abc'', py ''abd''}"
    using hexdump_abc hexdump_abd by (simp add: inj_on_def py_def)
  have empty: "\<not> (\<exists>row. documents (session empty_db) (py ''d1'') = Some row \<and>
                 file_hash row = py ''616263'')"
    by (simp add: empty_db_def)
  from upsert_document_change_detection[OF hexdump_abc ok,
      where db = empty_db and d = "py ''d1''" and p = "py ''/u/d1''" and m = 5
        and p' = "py ''/u/d1''" and m' = 6]
  obtain r db1 where
    first: "upsert_document hexdump (\<lambda>_. False) empty_db (py ''d1'') (py ''/u/d1'') (py ''abc'') 5
        = (if \<exists>row. documents (session empty_db) (py ''d1'') = Some row \<and>
                 file_hash row = py ''616263'' then (Inr False, empty_db)
           else (Inr True,
                  \<lparr>committed = replace_into_documents (session empty_db) (py ''d1'') (py ''/u/d1'') (py ''616263'') (py_int 5),
                   session = replace_into_documents (session empty_db) (py ''d1'') (py ''/u/d1'') (py ''616263'') (py_int 5)\<rparr>))"
    and res: "upsert_document hexdump (\<lambda>_. False) empty_db (py ''d1'') (py ''/u/d1'') (py ''abc'') 5 = (r, db1)"
    and again: "upsert_document hexdump (\<lambda>_. False) db1 (py ''d1'') (py ''/u/d1'') (py ''abc'') 6 = (Inr False, db1)"
    and alt: "\<forall>text' h'. sha256_text hexdump text' = Inr h' \<and> py ''abc'' \<noteq> text' \<and>
                 inj_on (sha256_text hexdump) {py ''abc'', text'} \<longrightarrow>
               (\<exists>db2 row2. upsert_document hexdump (\<lambda>_. False) db1 (py ''d1'') (py ''/u/d1'') text' 6 = (Inr True, db2) \<and>
                  documents (session db2) (py ''d1'') = Some row2 \<and> documents (committed db2) (py ''d1'') = Some row2 \<and>
                  file_hash row2 = h' \<and> h' \<noteq> py ''616263'')"
    by blast
  from first res empty have r: "r = Inr True" by (simp only: if_False prod.inject)
  from alt hexdump_abd ne inj obtain db2 row2 where
    "upsert_document hexdump (\<lambda>_. False) db1 (py ''d1'') (py ''/u/d1'') (py ''abd'') 6 = (Inr True, db2)"
    "documents (committed db2) (py ''d1'') = Some row2" "file_hash row2 = py ''616264''"
    by blast
  with res r again hexdump_abc hexdump_abd show ?thesis by blast
qed

text \<open>
  C5. For a chunk text that can be encoded, with no failing call on the connection,
  \<open>persist_chunk\<close> stores \<open>chunk_hash = digest(text)\<close> and
  \<open>content_hash = digest(text || "|tok=" || TOK_VER || "|seg=" || SEG_VER)\<close> and returns the
  latter. Under two different pairs of versions the stored \<open>chunk_hash\<close> is the same, the
  two hashed byte strings differ, and the two \<open>content_hash\<close> values differ as soon as
  the hash function does not collide on these two byte strings.
\<close>

theorem persist_chunk_hashes:
  assumes enc: "encode_utf8 text = Inr b"
    and ok: "\<forall>op. \<not> fails op"
  shows "(\<exists>cid db1 row.
            persist_chunk H tok seg fails db did text ps pe sec
              = (Inr (cid, content_hash row), db1) \<and>
            chunks (committed db1) cid = Some row \<and>
            sha256_text H text = Inr (chunk_hash row) \<and>
            sha256_text H (text @ py ''|tok='' @ str_int tok @ py ''|seg='' @ str_int seg)
              = Inr (content_hash row) \<and>
            chunk_hash row = sha256_bytes H b \<and>
            content_hash row = sha256_bytes H (b @ version_tag tok seg)) \<and>
         ((tok, seg) \<noteq> (tok', seg') \<and>
          inj_on (sha256_bytes H) {b @ version_tag tok seg, b @ version_tag tok' seg'} \<longrightarrow>
            (\<exists>cid db1 db2 row1 row2.
               persist_chunk H tok seg fails db did text ps pe sec
                 = (Inr (cid, content_hash row1), db1) \<and>
               persist_chunk H tok' seg' fails db did text ps pe sec
                 = (Inr (cid, content_hash row2), db2) \<and>
               chunks (committed db1) cid = Some row1 \<and>
               chunks (committed db2) cid = Some row2 \<and>
               chunk_hash row1 = chunk_hash row2 \<and>
               content_hash row1 \<noteq> content_hash row2))"
proof (intro conjI impI)
  show "\<exists>cid db1 row.
            persist_chunk H tok seg fails db did text ps pe sec
              = (Inr (cid, content_hash row), db1) \<and>
            chunks (committed db1) cid = Some row \<and>
            sha256_text H text = Inr (chunk_hash row) \<and>
            sha256_text H (text @ py ''|tok='' @ str_int tok @ py ''|seg='' @ str_int seg)
              = Inr (content_hash row) \<and>
            chunk_hash row = sha256_bytes H b \<and>
            content_hash row = sha256_bytes H (b @ version_tag tok seg)"
    by (simp add: persist_chunk_ok[OF enc ok] sha256_text_versioned[OF enc]
        commit_def replace_into_chunks_def sha256_bytes_def)
next
  assume a: "(tok, seg) \<noteq> (tok', seg') \<and>
          inj_on (sha256_bytes H) {b @ version_tag tok seg, b @ version_tag tok' seg'}"
  then have "version_tag tok seg \<noteq> version_tag tok' seg'"
    using version_tag_inj by blast
  moreover have "inj_on (sha256_bytes H) {b @ version_tag tok seg, b @ version_tag tok' seg'}"
    using a by blast
  ultimately have hne: "H (b @ version_tag tok seg) \<noteq> H (b @ version_tag tok' seg')"
    unfolding sha256_bytes_def
    by (metis inj_onD insertI1 insertI2 same_append_eq)
  let ?cid = "did @ py '':'' @ take 12 (H b)"
  let ?row = "\<lambda>t s. \<lparr>doc_id = did, page_start = ps, page_end = pe, section_label = sec,
               chunk_hash = H b, content_hash = H (b @ version_tag t s), chunk_text = text\<rparr>"
  let ?db = "\<lambda>t s. commit (db\<lparr>session := replace_into_chunks (session db) ?cid (?row t s)\<rparr>)"
  have p: "persist_chunk H t s fails db did text ps pe sec
             = (Inr (?cid, content_hash (?row t s)), ?db t s)" for t s
    by (simp add: persist_chunk_ok[OF enc ok])
  have c: "chunks (committed (?db t s)) ?cid = Some (?row t s)" for t s
    by (simp add: commit_def replace_into_chunks_def)
  have "chunk_hash (?row tok seg) = chunk_hash (?row tok' seg')" by simp
  moreover have "content_hash (?row tok seg) \<noteq> content_hash (?row tok' seg')"
    using hne by simp
  ultimately show "\<exists>cid db1 db2 row1 row2.
               persist_chunk H tok seg fails db did text ps pe sec
                 = (Inr (cid, content_hash row1), db1) \<and>
               persist_chunk H tok' seg' fails db did text ps pe sec
                 = (Inr (cid, content_hash row2), db2) \<and>
               chunks (committed db1) cid = Some row1 \<and>
               chunks (committed db2) cid = Some row2 \<and>
               chunk_hash row1 = chunk_hash row2 \<and>
               content_hash row1 \<noteq> content_hash row2"
    using p[of tok seg] p[of tok' seg'] c[of tok seg] c[of tok' seg'] by blast
qed

text \<open>
  C6. The \<open>chunk_id\<close> that \<open>persist_chunk\<close> returns is the \<open>doc_id\<close>, a colon and the first
  twelve characters of \<open>chunk_hash = digest(text)\<close>. It depends neither on the page range
  nor on the section, the versions or the state of the store: two calls with the same
  \<open>(doc_id, text)\<close> return the same \<open>chunk_id\<close>.
\<close>

theorem persist_chunk_id_deterministic:
  assumes enc: "encode_utf8 text = Inr b"
    and ok: "\<forall>op. \<not> fails op" and ok': "\<forall>op. \<not> fails' op"
  shows "\<exists>ch coh coh' db1 db2.
           sha256_text H text = Inr ch \<and>
           persist_chunk H tok seg fails db did text ps pe sec
             = (Inr (did @ py '':'' @ take 12 ch, coh), db1) \<and>
           persist_chunk H tok' seg' fails' db' did text ps' pe' sec'
             = (Inr (did @ py '':'' @ take 12 ch, coh'), db2)"
  by (simp add: persist_chunk_ok[OF enc ok] persist_chunk_ok[OF enc ok']
      sha256_text_versioned[OF enc])

lemma digits_1: "digits (Suc 0) = [49]"
  by (subst digits.simps) simp

lemma digits_2: "digits 2 = [50]"
  by (subst digits.simps) simp

lemma version_tag_1_1: "version_tag TOK_VER SEG_VER = py ''|tok=1|seg=1''"
  by (simp add: version_tag_def TOK_VER_def SEG_VER_def str_int_def py_def digits_1)

lemma version_tag_2_1: "version_tag 2 SEG_VER = py ''|tok=2|seg=1''"
  by (simp add: version_tag_def SEG_VER_def str_int_def py_def digits_2 digits_1)

lemma encode_hi: "encode_utf8 (py ''hi'') = Inr [104, 105]"
  by (simp add: py_def utf8_char_def)

text \<open>The theorem at the source's versions \<open>(1, 1)\<close> against \<open>(2, 1)\<close>.\<close>

theorem persist_chunk_hashes_witness:
  "encode_utf8 (py ''hi'') = Inr [104, 105] \<and>
   (TOK_VER, SEG_VER) \<noteq> (2, SEG_VER) \<and>
   inj_on (sha256_bytes hexdump)
     {[104, 105] @ version_tag TOK_VER SEG_VER, [104, 105] @ version_tag 2 SEG_VER} \<and>
   (\<exists>cid db1 db2 row1 row2.
      persist_chunk hexdump TOK_VER SEG_VER (\<lambda>_. False) empty_db (py ''d1'') (py ''hi'')
          (Some 1) (Some 2) None = (Inr (cid, content_hash row1), db1) \<and>
      persist_chunk hexdump 2 SEG_VER (\<lambda>_. False) empty_db (py ''d1'') (py ''hi'')
          (Some 1) (Some 2) None = (Inr (cid, content_hash row2), db2) \<and>
      chunks (committed db1) cid = Some row1 \<and>
      chunks (committed db2) cid = Some row2 \<and>
      chunk_hash row1 = chunk_hash row2 \<and>
      content_hash row1 \<noteq> content_hash row2)"
proof -
  have ok: "\<forall>op. \<not> (\<lambda>_::dbop. False) op" by simp
  have ne: "(TOK_VER, SEG_VER) \<noteq> (2, SEG_VER)" by (simp add: TOK_VER_def)
  have inj: "inj_on (sha256_bytes hexdump)
     {[104, 105] @ version_tag TOK_VER SEG_VER, [104, 105] @ version_tag 2 SEG_VER}"
    by (simp add: inj_on_def version_tag_1_1 version_tag_2_1 sha256_bytes_def hexdump_def py_def)
  from persist_chunk_hashes[OF encode_hi ok, where H = hexdump and tok = TOK_VER
      and seg = SEG_VER and tok' = 2 and seg' = SEG_VER and db = empty_db and did = "py ''d1''"
      and ps = "Some 1" and pe = "Some 2" and sec = None] ne inj
  have "\<exists>cid db1 db2 row1 row2.
      persist_chunk hexdump TOK_VER SEG_VER (\<lambda>_. False) empty_db (py ''d1'') (py ''hi'')
          (Some 1) (Some 2) None = (Inr (cid, content_hash row1), db1) \<and>
      persist_chunk hexdump 2 SEG_VER (\<lambda>_. False) empty_db (py ''d1'') (py ''hi'')
          (Some 1) (Some 2) None = (Inr (cid, content_hash row2), db2) \<and>
      chunks (committed db1) cid = Some row1 \<and>
      chunks (committed db2) cid = Some row2 \<and>
      chunk_hash row1 = chunk_hash row2 \<and>
      content_hash row1 \<noteq> content_hash row2"
    by blast
  with encode_hi ne inj show ?thesis by blast
qed

text \<open>Two calls in a row, with different page ranges and sections.\<close>

theorem persist_chunk_id_deterministic_witness:
  "encode_utf8 (py ''hi'') = Inr [104, 105] \<and>
   (\<exists>coh coh' db1 db2.
      persist_chunk hexdump TOK_VER SEG_VER (\<lambda>_. False) empty_db (py ''d1'') (py ''hi'')
          (Some 1) (Some 2) None = (Inr (py ''d1:6869'', coh), db1) \<and>
      persist_chunk hexdump TOK_VER SEG_VER (\<lambda>_. False) db1 (py ''d1'') (py ''hi'')
          (Some 7) (Some 9) (Some (py ''Intro'')) = (Inr (py ''d1:6869'', coh'), db2))"
proof -
  have ok: "\<forall>op. \<not> (\<lambda>_::dbop. False) op" by simp
  have h: "sha256_text hexdump (py ''hi'') = Inr (py ''6869'')"
    by (simp add: sha256_text_def sha256_bytes_def hexdump_def py_def utf8_char_def)
  have cid: "py ''d1'' @ py '':'' @ take 12 (py ''6869'') = py ''d1:6869''"
    by (simp add: py_def)
  obtain ch coh db1 where
    a: "sha256_text hexdump (py ''hi'') = Inr ch"
       "persist_chunk hexdump TOK_VER SEG_VER (\<lambda>_. False) empty_db (py ''d1'') (py ''hi'')
          (Some 1) (Some 2) None = (Inr (py ''d1'' @ py '':'' @ take 12 ch, coh), db1)"
    using persist_chunk_id_deterministic[OF encode_hi ok ok, where H = hexdump
      and tok = TOK_VER and seg = SEG_VER and db = empty_db and did = "py ''d1''"
      and ps = "Some 1" and pe = "Some 2" and sec = None]
    by blast
  obtain ch' coh' coh'' db1' db2 where
    b: "sha256_text hexdump (py ''hi'') = Inr ch'"
       "persist_chunk hexdump TOK_VER SEG_VER (\<lambda>_. False) empty_db (py ''d1'') (py ''hi'')
          (Some 1) (Some 2) None = (Inr (py ''d1'' @ py '':'' @ take 12 ch', coh''), db1')"
       "persist_chunk hexdump TOK_VER SEG_VER (\<lambda>_. False) db1 (py ''d1'') (py ''hi'')
          (Some 7) (Some 9) (Some (py ''Intro'')) = (Inr (py ''d1'' @ py '':'' @ take 12 ch', coh'), db2)"
    using persist_chunk_id_deterministic[OF encode_hi ok ok, where H = hexdump
      and tok = TOK_VER and seg = SEG_VER and db = empty_db and did = "py ''d1''"
      and ps = "Some 1" and pe = "Some 2" and sec = None
      and tok' = TOK_VER and seg' = SEG_VER and db' = db1 and ps' = "Some 7" and pe' = "Some 9"
      and sec' = "Some (py ''Intro'')"]
    by blast
  from a(1) b(1) h have "ch = py ''6869''" "ch' = py ''6869''" by simp_all
  with a(2) b(3) cid encode_hi show ?thesis by (metis (no_types))
qed

section \<open>Commit granularity of the store\<close>



lemma upsert_document_true_committed:
  "upsert_document H fails db d p t m = (Inr True, db1) \<Longrightarrow>
   \<exists>row. documents (committed db1) d = Some row \<and> sha256_text H t = Inr (file_hash row) \<and>
     title row = None \<and> committed db1 = session db1"
  by (auto simp: upsert_document_def Let_def commit_def replace_into_documents_def
      split: sum.splits if_splits option.splits)







section \<open>Properties of the PDF extraction\<close>




lemma layout_blank: "layout_text (\<lambda>q. q) blank_page = []"
  by (simp add: layout_text_def blank_page_def strip_def strip_where_def)

lemma layout_abc: "layout_text (\<lambda>q. q) abc_page = py ''abc''"
  by (simp add: layout_text_def abc_page_def strip_def strip_where_def or_empty_def py_def
      is_space_def)

lemma py_abc_nonempty: "py ''abc'' \<noteq> []"
  by (simp add: py_def)

lemma page_text_blank: "page_text (\<lambda>q. q) blank_page = []"
  by (simp add: page_text_def layout_blank) (simp add: blank_page_def strip_def strip_where_def)

lemma page_text_abc: "page_text (\<lambda>q. q) abc_page = py ''abc''"
  by (simp add: page_text_def layout_abc py_abc_nonempty)



lemma page_texts_example:
  "map (page_text (\<lambda>q. q)) [blank_page, abc_page] = [[], py ''abc'']"
  by (simp add: page_text_blank page_text_abc)



section \<open>Properties of the title extraction\<close>



















text \<open>
  \<open>_extract_pdf_title\<close> lets an exception of \<open>fitz.open\<close> pass to its caller, where
  \<open>_extract_docx_title\<close> returns \<open>"Unknown"\<close>.
\<close>

lemma broken_pdf_raises:
  "extract_pdf_title ulower cfg broken_pdf = Inl FileError"
  by (simp add: extract_pdf_title_def broken_pdf_def)




section \<open>Titles of ingested documents\<close>

lemma upsert_document_session:
  "session (snd (upsert_document H fails db d p t m)) = session db \<or>
   (\<exists>h mt. session (snd (upsert_document H fails db d p t m))
      = replace_into_documents (session db) d p h mt)"
  by (auto simp: upsert_document_def Let_def commit_def split: sum.splits option.splits)

lemma upsert_document_commit:
  "committed (snd (upsert_document H fails db d p t m)) = committed db \<or>
   committed (snd (upsert_document H fails db d p t m))
     = session (snd (upsert_document H fails db d p t m))"
  by (auto simp: upsert_document_def Let_def commit_def split: sum.splits option.splits)

lemma replace_into_documents_rows:
  "documents (replace_into_documents st d p h mt) d' = Some row \<Longrightarrow>
   documents st d' \<noteq> Some row \<Longrightarrow> title row = None"
  by (auto simp: replace_into_documents_def split: if_splits)

lemma upsert_document_written_rows:
  assumes "documents (session (snd (upsert_document H fails db d p t m))) d' = Some row"
    and "documents (session db) d' \<noteq> Some row"
  shows "title row = None"
  using upsert_document_session[of H fails db d p t m] assms replace_into_documents_rows
  by metis

lemma add_doc_store:
  "snd (add_doc H uni rnd ulower open_pdf open_docx fails env db req) = db \<or>
   (\<exists>p t m. snd (add_doc H uni rnd ulower open_pdf open_docx fails env db req)
      = snd (upsert_document H fails db (uuid4 env) p t m))"
  by (auto simp: add_doc_def Let_def split: option.splits sum.splits prod.splits)
     (metis snd_conv)+

lemma add_doc_written_rows:
  assumes "documents (session (snd (add_doc H uni rnd ulower open_pdf open_docx fails env db req))) d'
             = Some row"
    and "documents (session db) d' \<noteq> Some row"
  shows "title row = None"
  using add_doc_store[of H uni rnd ulower open_pdf open_docx fails env db req] assms
    upsert_document_written_rows
  by metis

lemma untitled_upsert:
  assumes "untitled (session db)" "untitled (committed db)"
  shows "untitled (session (snd (upsert_document H fails db d p t m))) \<and>
         untitled (committed (snd (upsert_document H fails db d p t m)))"
proof -
  have s: "untitled (session (snd (upsert_document H fails db d p t m)))"
    unfolding untitled_def
    using upsert_document_written_rows[of H fails db d p t m] assms(1)
    by (metis untitled_def)
  then show ?thesis
    using upsert_document_commit[of H fails db d p t m] assms(2) by metis
qed

lemma untitled_add_doc:
  assumes "untitled (session db)" "untitled (committed db)"
  shows "untitled (session (snd (add_doc H uni rnd ulower open_pdf open_docx fails env db req))) \<and>
         untitled (committed (snd (add_doc H uni rnd ulower open_pdf open_docx fails env db req)))"
  using add_doc_store[of H uni rnd ulower open_pdf open_docx fails env db req] assms
    untitled_upsert
  by metis


text \<open>
  C10. Every document row that \<open>upsert_document\<close> writes has no title: the statement
  replaces the row without naming the column, so a title stored before is gone. The
  upload handler \<open>add_doc\<close> writes to the store through \<open>upsert_document\<close> only and does
  not take the title functions' surroundings at all; every row it creates or changes has
  no title, and a store without titles stays without titles.
\<close>

theorem ingestion_leaves_title_absent:
  "(\<forall>d' row. documents (session (snd (upsert_document H fails db d p t m))) d' = Some row \<and>
       documents (session db) d' \<noteq> Some row \<longrightarrow> title row = None) \<and>
   (upsert_document H fails db d p t m = (Inr True, db1) \<longrightarrow>
      (\<exists>row. documents (session db1) d = Some row \<and> documents (committed db1) d = Some row \<and>
         title row = None)) \<and>
   (\<forall>d' row.
       documents (session (snd (add_doc H uni rnd ulower open_pdf open_docx fails env db req))) d'
         = Some row \<and>
       documents (session db) d' \<noteq> Some row \<longrightarrow> title row = None) \<and>
   (untitled (session db) \<and> untitled (committed db) \<longrightarrow>
      untitled (session (snd (add_doc H uni rnd ulower open_pdf open_docx fails env db req))) \<and>
      untitled (committed (snd (add_doc H uni rnd ulower open_pdf open_docx fails env db req))))"
proof (intro conjI allI impI)
  fix d' row
  assume "documents (session (snd (upsert_document H fails db d p t m))) d' = Some row \<and>
       documents (session db) d' \<noteq> Some row"
  then show "title row = None"
    using upsert_document_written_rows by blast
next
  assume "upsert_document H fails db d p t m = (Inr True, db1)"
  from upsert_document_true_committed[OF this]
  show "\<exists>row. documents (session db1) d = Some row \<and> documents (committed db1) d = Some row \<and>
         title row = None"
    by auto
next
  fix d' row
  assume "documents (session (snd (add_doc H uni rnd ulower open_pdf open_docx fails env db req))) d'
         = Some row \<and>
       documents (session db) d' \<noteq> Some row"
  then show "title row = None"
    using add_doc_written_rows by blast
next
  assume a: "untitled (session db) \<and> untitled (committed db)"
  then show "untitled (session (snd (add_doc H uni rnd ulower open_pdf open_docx fails env db req)))"
    using untitled_add_doc by blast
  from a show "untitled (committed (snd (add_doc H uni rnd ulower open_pdf open_docx fails env db req)))"
    using untitled_add_doc by blast
qed

lemma upsert_titled:
  "upsert_document hexdump (\<lambda>_. False) titled_db (py ''d1'') (py ''/u/d1'') (py ''abc'') 5 =
     (Inr True,
      \<lparr>committed = replace_into_documents (session titled_db) (py ''d1'') (py ''/u/d1'') (py ''616263'') 5,
       session = replace_into_documents (session titled_db) (py ''d1'') (py ''/u/d1'') (py ''616263'') 5\<rparr>)"
proof -
  have "py ''00'' \<noteq> py ''616263''" by (simp add: py_def)
  then show ?thesis
    by (simp add: upsert_document_def hexdump_abc titled_db_def commit_def py_int_def Let_def)
qed

text \<open>Replacing a row that had the title \<open>Old\<close>.\<close>

theorem ingestion_leaves_title_absent_witness:
  "(\<exists>old. documents (session titled_db) (py ''d1'') = Some old \<and> title old = Some (py ''Old'')) \<and>
   (\<exists>db1 row.
      upsert_document hexdump (\<lambda>_. False) titled_db (py ''d1'') (py ''/u/d1'') (py ''abc'') 5
        = (Inr True, db1) \<and>
      documents (session db1) (py ''d1'') = Some row \<and>
      documents (committed db1) (py ''d1'') = Some row \<and> title row = None)"
proof -
  let ?db1 = "\<lparr>committed = replace_into_documents (session titled_db) (py ''d1'') (py ''/u/d1'') (py ''616263'') 5,
       session = replace_into_documents (session titled_db) (py ''d1'') (py ''/u/d1'') (py ''616263'') 5\<rparr>"
  have old: "\<exists>old. documents (session titled_db) (py ''d1'') = Some old \<and> title old = Some (py ''Old'')"
    by (simp add: titled_db_def Let_def)
  from ingestion_leaves_title_absent[where H = hexdump and fails = "\<lambda>_. False" and db = titled_db
      and d = "py ''d1''" and p = "py ''/u/d1''" and t = "py ''abc''" and m = 5 and ?db1.0 = ?db1]
    upsert_titled
  have "\<exists>row. documents (session ?db1) (py ''d1'') = Some row \<and>
      documents (committed ?db1) (py ''d1'') = Some row \<and> title row = None"
    by blast
  with old upsert_titled show ?thesis by blast
qed


text \<open>
  A run of the handler. The stored path is the upload folder and the identifier, without
  the extension of the uploaded name, so \<open>_get_text\<close> takes its last branch.
\<close>

lemma demo_path: "path_join (upload_folder demo_surroundings) (py ''u1'') = py ''/up/u1''"
  by (simp add: path_join_def demo_surroundings_def py_def)

lemma demo_get_text:
  "get_text uni rnd open_pdf open_docx (py ''/up/u1'') = Inr (py ''Untitled'')"
  by (simp add: get_text_def py_def suffix_def)

lemma demo_allowed: "allowed_file ulower (py ''a.PDF'')"
  by (simp add: allowed_file_def after_last_dot_def py_lower_def ascii_lower_def
      ALLOWED_EXTENSIONS_def py_def)

lemma demo_hash: "sha256_text hexdump (py ''Untitled'') = Inr (py ''556e7469746c6564'')"
  by (simp add: sha256_text_def sha256_bytes_def hexdump_def py_def utf8_char_def)

lemma add_doc_demo:
  "\<exists>db1 row.
     add_doc hexdump uni rnd ulower open_pdf open_docx (\<lambda>_. False) demo_surroundings empty_db
       (Some \<lparr>filename = Some (py ''a.PDF''), save_raises = False\<rparr>)
       = (Inr ([(py ''message'', py ''Document uploaded successfully.''),
                (py ''filename'', py ''u1'')], 201), db1) \<and>
     documents (committed db1) (py ''u1'') = Some row \<and>
     row = \<lparr>source_path = py ''/up/u1'', title = None,
            file_hash = py ''556e7469746c6564'', modified_at = 3\<rparr>"
proof -
  have ne: "py ''a.PDF'' \<noteq> []" by (simp add: py_def)
  have "\<lfloor>7 / 2 :: rat\<rfloor> = 3" by (simp add: floor_eq_iff)
  then have u: "uuid4 demo_surroundings = py ''u1''" "py_int (utc_timestamp demo_surroundings) = 3"
    by (simp_all add: demo_surroundings_def py_int_def)
  have "upsert_document hexdump (\<lambda>_. False) empty_db (py ''u1'') (py ''/up/u1'') (py ''Untitled'') 3
     = (Inr True,
        \<lparr>committed = replace_into_documents (session empty_db) (py ''u1'') (py ''/up/u1'') (py ''556e7469746c6564'') 3,
         session = replace_into_documents (session empty_db) (py ''u1'') (py ''/up/u1'') (py ''556e7469746c6564'') 3\<rparr>)"
    by (simp add: upsert_document_def demo_hash empty_db_def commit_def py_int_def)
  then show ?thesis
    by (simp add: add_doc_def or_empty_def ne demo_allowed demo_path demo_get_text u Let_def
        replace_into_documents_def)
qed

end
